theory Spec2Isabelle
  imports Complex_Main
begin

section \<open>Python values the pipeline handles\<close>

text \<open>
  The development embeds \<^verbatim>\<open>src/run_demo_final.py\<close>: the class
  \<^verbatim>\<open>PluginManager\<close>, the body of \<^verbatim>\<open>detection_loop\<close> and the
  readers \<^verbatim>\<open>get_status\<close> and \<^verbatim>\<open>generate_frames\<close>.

  A Python \<^verbatim>\<open>dict\<close> keeps its keys in insertion order, and
  \<^verbatim>\<open>run_plugins\<close> iterates one, so a dict is an association list:
  \<^verbatim>\<open>d[k] = v\<close> replaces the value in place when the key is there and appends
  the pair otherwise, \<^verbatim>\<open>del d[k]\<close> removes the pair.
\<close>

type_synonym 'v dict = "(string \<times> 'v) list"

fun dict_set :: "'v dict \<Rightarrow> string \<Rightarrow> 'v \<Rightarrow> 'v dict" where
  "dict_set [] k v = [(k, v)]"
| "dict_set ((k', v') # d) k v = (if k' = k then (k, v) # d else (k', v') # dict_set d k v)"

fun dict_del :: "'v dict \<Rightarrow> string \<Rightarrow> 'v dict" where
  "dict_del [] k = []"
| "dict_del ((k', v') # d) k = (if k' = k then dict_del d k else (k', v') # dict_del d k)"

fun dict_get :: "'v dict \<Rightarrow> string \<Rightarrow> 'v option" where
  "dict_get [] k = None"
| "dict_get ((k', v') # d) k = (if k' = k then Some v' else dict_get d k)"

definition dict_keys :: "'v dict \<Rightarrow> string list" where
  "dict_keys d = map fst d"

text \<open>
  An exception instance, by the classes the handlers of the file tell apart:
  \<^verbatim>\<open>ImportError\<close> (with its subclasses), any other instance of
  \<^verbatim>\<open>Exception\<close>, and an exception outside \<^verbatim>\<open>Exception\<close>
  (\<^verbatim>\<open>SystemExit\<close>, \<^verbatim>\<open>KeyboardInterrupt\<close>, \<^verbatim>\<open>GeneratorExit\<close> or
  another direct subclass of \<^verbatim>\<open>BaseException\<close>). \<^verbatim>\<open>except Exception\<close>
  catches the first two, \<^verbatim>\<open>except ImportError\<close> the first, a bare
  \<^verbatim>\<open>except\<close> all three.
\<close>

datatype py_exception = ImportError string | PyException string | PyBaseException string

fun is_Exception :: "py_exception \<Rightarrow> bool" where
  "is_Exception (ImportError s) = True"
| "is_Exception (PyException s) = True"
| "is_Exception (PyBaseException s) = False"

fun is_ImportError :: "py_exception \<Rightarrow> bool" where
  "is_ImportError (ImportError s) = True"
| "is_ImportError (PyException s) = False"
| "is_ImportError (PyBaseException s) = False"

text \<open>
  Images are symbolic: a camera image, the result of \<^verbatim>\<open>cv2.resize\<close>, and the
  picture \<^verbatim>\<open>results[0].plot()\<close> returns. The annotated frame is the array the
  loop and the plugins draw on in place: the picture it started from and the overlays
  drawn on it so far, oldest first.
\<close>

datatype image = Camera nat | Resized image | PosePlot image

type_synonym keypoint = "real \<times> real \<times> real"
type_synonym person = "keypoint list"
type_synonym hand = "keypoint list"

datatype overlay =
    HandLandmarks hand
  | PluginDrawing string
  | LiveDetectionText
  | FrameText int
  | PluginsActiveText nat

record annotated =
  canvas :: image
  overlays :: "overlay list"

text \<open>The object \<^verbatim>\<open>hands.process\<close> returns; it is a named tuple, hence truthy.\<close>

record hand_res =
  multi_hand_landmarks :: "hand list option"

subsection \<open>What a plugin's run call gives back\<close>

text \<open>
  \<^verbatim>\<open>run_plugins\<close> reads the value a plugin returns through a few operations: unpacking
  into two, truth value, \<^verbatim>\<open>isinstance(color, (tuple, list))\<close>, \<^verbatim>\<open>len\<close>,
  \<^verbatim>\<open>str(msg)\<close> and \<^verbatim>\<open>int(c)\<close> on each component. The datatypes below
  keep of a Python value what these operations read. \<open>MObj t s\<close> is any object that is
  neither \<^verbatim>\<open>None\<close> nor a \<^verbatim>\<open>str\<close>, with truth value \<open>t\<close> and
  \<^verbatim>\<open>str()\<close> \<open>s\<close>; \<open>CObj r\<close> is a component on which \<^verbatim>\<open>int()\<close>
  returns \<open>r\<close>, or raises when \<open>r\<close> is \<open>None\<close>; \<open>ColObj t\<close> is an object that is
  neither a tuple nor a list. \<open>NotAPair\<close> is a returned value that does not unpack into
  exactly two items, \<^verbatim>\<open>None\<close> among them: the assignment
  \<^verbatim>\<open>msg, color = ...\<close> raises \<^verbatim>\<open>TypeError\<close> or \<^verbatim>\<open>ValueError\<close>.
  It also stands for a pair on which the test or \<^verbatim>\<open>str(msg)\<close> raises an
  instance of \<^verbatim>\<open>Exception\<close>: in all these cases the exception comes before the
  first \<^verbatim>\<open>append\<close> and is caught. \<open>Raises e\<close> with \<open>e\<close> outside
  \<^verbatim>\<open>Exception\<close> also stands for such an exception raised by a later operation
  of the loop body: it leaves \<^verbatim>\<open>run_plugins\<close> all the same, and the lists are
  lost with it.
\<close>

datatype py_msg = MNone | MStr string | MObj bool string

datatype py_component = CInt int | CObj "int option"

datatype py_color = ColNone | ColTuple "py_component list" | ColList "py_component list" | ColObj bool

datatype run_result = Raises py_exception | NotAPair | Returns py_msg py_color

fun msg_truth :: "py_msg \<Rightarrow> bool" where
  "msg_truth MNone = False"
| "msg_truth (MStr s) = (s \<noteq> [])"
| "msg_truth (MObj t s) = t"

fun py_str :: "py_msg \<Rightarrow> string" where
  "py_str MNone = ''None''"
| "py_str (MStr s) = s"
| "py_str (MObj t s) = s"

fun color_truth :: "py_color \<Rightarrow> bool" where
  "color_truth ColNone = False"
| "color_truth (ColTuple cs) = (cs \<noteq> [])"
| "color_truth (ColList cs) = (cs \<noteq> [])"
| "color_truth (ColObj t) = t"

fun components :: "py_color \<Rightarrow> py_component list option" where
  "components (ColTuple cs) = Some cs"
| "components (ColList cs) = Some cs"
| "components ColNone = None"
| "components (ColObj t) = None"

fun py_int :: "py_component \<Rightarrow> int option" where
  "py_int (CInt n) = Some n"
| "py_int (CObj r) = r"

text \<open>
  \<^verbatim>\<open>tuple(int(c) for c in color)\<close>: the first component on which
  \<^verbatim>\<open>int\<close> raises ends the conversion with that exception (\<open>None\<close>).
\<close>

fun int_tuple :: "py_component list \<Rightarrow> int list option" where
  "int_tuple [] = Some []"
| "int_tuple (c # cs) =
     (case py_int c of
        None \<Rightarrow> None
      | Some n \<Rightarrow> (case int_tuple cs of None \<Rightarrow> None | Some ns \<Rightarrow> Some (n # ns)))"

section \<open>The plugin registry\<close>

text \<open>
  A plugin instance is the object \<^verbatim>\<open>module.Plugin()\<close> built. Its two capability
  attributes are optional (\<^verbatim>\<open>getattr\<close> with default \<^verbatim>\<open>False\<close>); its
  \<^verbatim>\<open>run\<close> method gets the frame, the annotated frame, the keypoints and the hand
  result, and gives back its result together with the annotated frame as the call left
  it. What a plugin keeps in its own fields from one call to the next is not modelled;
  within one cycle each loaded plugin is called once. The display attributes (name,
  description, version, category) take no part in any operation below and are left out,
  as are the lines printed to the console. The fields \<^verbatim>\<open>module_name\<close> and
  \<^verbatim>\<open>instance\<close> of \<^verbatim>\<open>PluginInfo\<close> are \<open>plugin_module_name\<close> and
  \<open>instance_of\<close> here, both words being reserved.
\<close>

record plugin_instance =
  attr_requires_keypoints :: "bool option"
  attr_requires_hands :: "bool option"
  run :: "image \<Rightarrow> annotated \<Rightarrow> person option \<Rightarrow> hand_res \<Rightarrow> run_result \<times> annotated"

record plugin_info =
  name :: string
  plugin_module_name :: string
  enabled :: bool
  instance_of :: plugin_instance
  requires_keypoints :: bool
  requires_hands :: bool

record plugin_manager =
  available_plugins :: "plugin_info dict"
  loaded_plugins :: "plugin_instance dict"

text \<open>
  What importing one file of the plugin folder does inside the inner \<^verbatim>\<open>try\<close>
  of \<^verbatim>\<open>discover_plugins\<close>: an exception (from the import, from
  \<^verbatim>\<open>module.Plugin()\<close> or from reading an attribute), a module without a
  \<^verbatim>\<open>Plugin\<close> attribute, or an instance. What the first two lines of the outer
  \<^verbatim>\<open>try\<close> do: an exception (from importing the package, or from
  \<^verbatim>\<open>os.path.dirname(plugin_package.__file__)\<close>, a \<^verbatim>\<open>TypeError\<close> when the
  package is a namespace package), or the files \<^verbatim>\<open>glob\<close> lists, each the base
  name of a \<^verbatim>\<open>*.py\<close> file with what loading it does.
\<close>

datatype load_outcome = LoadRaises py_exception | NoPluginClass | Loaded plugin_instance

datatype package_import = PackageRaises py_exception | PackageFiles "(string \<times> load_outcome) list"

definition startswith_dunder :: "string \<Rightarrow> bool" where
  "startswith_dunder s = (take 2 s = ''__'')"

definition make_plugin_info :: "string \<Rightarrow> plugin_instance \<Rightarrow> plugin_info" where
  "make_plugin_info plugin_name plugin_instance =
     \<lparr> name = plugin_name,
       plugin_module_name = plugin_name,
       enabled = False,
       instance_of = plugin_instance,
       requires_keypoints = (case attr_requires_keypoints plugin_instance of None \<Rightarrow> False | Some b \<Rightarrow> b),
       requires_hands = (case attr_requires_hands plugin_instance of None \<Rightarrow> False | Some b \<Rightarrow> b) \<rparr>"

text \<open>
  The \<^verbatim>\<open>for plugin_file in plugin_files\<close> loop. The inner handler is
  \<^verbatim>\<open>except Exception\<close>: an exception outside \<^verbatim>\<open>Exception\<close> leaves the
  loop (\<open>Inl\<close>).
\<close>

fun discover_files ::
  "(string \<times> load_outcome) list \<Rightarrow> plugin_info dict \<Rightarrow> py_exception + plugin_info dict" where
  "discover_files [] available = Inr available"
| "discover_files ((plugin_name, outcome) # files) available =
     (if startswith_dunder plugin_name then discover_files files available
      else (case outcome of
              LoadRaises e \<Rightarrow> (if is_Exception e then discover_files files available else Inl e)
            | NoPluginClass \<Rightarrow> discover_files files available
            | Loaded plugin_instance \<Rightarrow>
                discover_files files
                  (dict_set available plugin_name (make_plugin_info plugin_name plugin_instance))))"

text \<open>
  The outer handler is \<^verbatim>\<open>except ImportError\<close>: it turns an
  \<^verbatim>\<open>ImportError\<close> of the package into a warning, and every other exception
  leaves \<^verbatim>\<open>discover_plugins\<close>. What leaves the loop is outside
  \<^verbatim>\<open>Exception\<close>, hence no \<^verbatim>\<open>ImportError\<close>.
\<close>

definition discover_plugins ::
  "plugin_manager \<Rightarrow> package_import \<Rightarrow> py_exception + plugin_manager" where
  "discover_plugins self package =
     (case package of
        PackageRaises e \<Rightarrow> (if is_ImportError e then Inr self else Inl e)
      | PackageFiles plugin_files \<Rightarrow>
          (case discover_files plugin_files (available_plugins self) of
             Inl e \<Rightarrow> Inl e
           | Inr available \<Rightarrow> Inr (self\<lparr>available_plugins := available\<rparr>)))"

text \<open>
  \<^verbatim>\<open>PluginManager.__init__\<close>: an exception that leaves discovery leaves the
  constructor, and there is no manager.
\<close>

definition new_plugin_manager :: "package_import \<Rightarrow> py_exception + plugin_manager" where
  "new_plugin_manager package =
     discover_plugins \<lparr> available_plugins = [], loaded_plugins = [] \<rparr> package"

definition enable_plugin :: "plugin_manager \<Rightarrow> string \<Rightarrow> bool \<times> plugin_manager" where
  "enable_plugin self plugin_name =
     (case dict_get (available_plugins self) plugin_name of
        None \<Rightarrow> (False, self)
      | Some info \<Rightarrow>
          if \<not> enabled info then
            (True, self\<lparr>available_plugins :=
                           dict_set (available_plugins self) plugin_name (info\<lparr>enabled := True\<rparr>),
                         loaded_plugins :=
                           dict_set (loaded_plugins self) plugin_name (instance_of info)\<rparr>)
          else (True, self))"

definition disable_plugin :: "plugin_manager \<Rightarrow> string \<Rightarrow> bool \<times> plugin_manager" where
  "disable_plugin self plugin_name =
     (case dict_get (available_plugins self) plugin_name of
        None \<Rightarrow> (False, self)
      | Some info \<Rightarrow>
          if enabled info then
            (True, self\<lparr>available_plugins :=
                           dict_set (available_plugins self) plugin_name (info\<lparr>enabled := False\<rparr>),
                         loaded_plugins :=
                           (if plugin_name \<in> set (dict_keys (loaded_plugins self))
                            then dict_del (loaded_plugins self) plugin_name
                            else loaded_plugins self)\<rparr>)
          else (True, self))"

text \<open>The result is \<open>((success, now_enabled), manager)\<close>.\<close>

definition toggle_plugin :: "plugin_manager \<Rightarrow> string \<Rightarrow> (bool \<times> bool) \<times> plugin_manager" where
  "toggle_plugin self plugin_name =
     (case dict_get (available_plugins self) plugin_name of
        None \<Rightarrow> ((False, False), self)
      | Some info \<Rightarrow>
          if enabled info then
            (let (success, self') = disable_plugin self plugin_name in ((success, False), self'))
          else
            (let (success, self') = enable_plugin self plugin_name in ((success, True), self')))"

definition get_enabled_plugins :: "plugin_manager \<Rightarrow> string list" where
  "get_enabled_plugins self = map fst (filter (\<lambda>(plugin_name, plugin). enabled plugin) (available_plugins self))"

subsection \<open>Running the enabled plugins\<close>

text \<open>
  One pass of the body of the \<^verbatim>\<open>for\<close> loop of \<^verbatim>\<open>run_plugins\<close>, with
  its \<^verbatim>\<open>try ... except Exception\<close>: an instance of \<^verbatim>\<open>Exception\<close>
  raised between the call and the last \<^verbatim>\<open>append\<close> is caught and the lists stay
  as they were at that point; any other exception leaves \<^verbatim>\<open>run_plugins\<close>
  (\<open>Inl\<close>).
  \<open>components\<close> is \<open>None\<close> where \<^verbatim>\<open>isinstance(color, (tuple, list))\<close> is
  false. The message is appended before the color is converted, so an exception of
  \<^verbatim>\<open>int(c)\<close> leaves the message in.
\<close>

definition run_one_plugin ::
  "image \<Rightarrow> person option \<Rightarrow> hand_res \<Rightarrow> plugin_instance \<Rightarrow>
   string list \<times> int list list \<times> annotated \<Rightarrow>
   py_exception + string list \<times> int list list \<times> annotated" where
  "run_one_plugin frame kpts hr plugin_instance acc =
     (case acc of (msgs, cols, ann) \<Rightarrow>
        (case run plugin_instance frame ann kpts hr of
           (Raises e, ann') \<Rightarrow> (if is_Exception e then Inr (msgs, cols, ann') else Inl e)
         | (NotAPair, ann') \<Rightarrow> Inr (msgs, cols, ann')
         | (Returns msg color, ann') \<Rightarrow>
             if msg_truth msg \<and> color_truth color then
               (case components color of
                  None \<Rightarrow> Inr (msgs, cols, ann')
                | Some cs \<Rightarrow>
                    if length cs = 3 then
                      (case int_tuple cs of
                         None \<Rightarrow> Inr (msgs @ [py_str msg], cols, ann')
                       | Some t \<Rightarrow> Inr (msgs @ [py_str msg], cols @ [t], ann'))
                    else Inr (msgs, cols, ann'))
             else Inr (msgs, cols, ann')))"

fun run_plugins_loop ::
  "plugin_instance dict \<Rightarrow> image \<Rightarrow> person option \<Rightarrow> hand_res \<Rightarrow>
   string list \<times> int list list \<times> annotated \<Rightarrow>
   py_exception + string list \<times> int list list \<times> annotated" where
  "run_plugins_loop [] frame kpts hr acc = Inr acc"
| "run_plugins_loop ((plugin_name, plugin_instance) # rest) frame kpts hr acc =
     (case run_one_plugin frame kpts hr plugin_instance acc of
        Inl e \<Rightarrow> Inl e
      | Inr acc' \<Rightarrow> run_plugins_loop rest frame kpts hr acc')"

text \<open>
  \<^verbatim>\<open>run_plugins\<close> returns \<open>(messages, colors)\<close>; the third component is the
  annotated frame as the plugins left it. \<open>Inl e\<close>: the exception \<open>e\<close> left the method
  and nothing is returned.
\<close>

definition run_plugins ::
  "plugin_manager \<Rightarrow> image \<Rightarrow> annotated \<Rightarrow> person option \<Rightarrow> hand_res \<Rightarrow>
   py_exception + string list \<times> int list list \<times> annotated" where
  "run_plugins self frame ann kpts hr =
     run_plugins_loop (loaded_plugins self) frame kpts hr ([], [], ann)"

section \<open>The detection loop\<close>

text \<open>
  The two detectors are opaque. The pose model either raises (from the call or from
  \<^verbatim>\<open>plot()\<close>) or returns the plotted picture with the outcome of reading
  \<^verbatim>\<open>results[0].keypoints.data.cpu().numpy()\<close>: an exception or the array of
  persons. The hand detector raises or returns its result object.
\<close>

datatype keypoints_outcome = KeypointsRaise | KeypointsArray "person list"

datatype pose_outcome = PoseRaises py_exception | PoseReturns image keypoints_outcome

record detectors =
  pose_model :: "image \<Rightarrow> pose_outcome"
  hands_process :: "image \<Rightarrow> py_exception + hand_res"

text \<open>
  The status dictionary, without the entries that do not come from the cycle
  (device, resolution, model_loaded, camera).
\<close>

record status =
  frame_count :: int
  person_detected :: bool
  hands_detected :: bool
  plugin_count :: nat
  plugins :: "string list"
  plugins_loaded :: nat
  total_plugins :: nat

text \<open>What one iteration computes: the locals it has when it reaches the stores.\<close>

record cycle_output =
  out_annotated :: annotated
  out_msgs :: "string list"
  out_colors :: "int list list"
  out_status :: status

text \<open>
  Lines 1525 to 1539: the pose detection with its two nested \<^verbatim>\<open>try\<close>s. The
  outer handler is \<^verbatim>\<open>except Exception\<close>, so an exception of the pose model
  outside \<^verbatim>\<open>Exception\<close> leaves the iteration (\<open>Inl\<close>); the inner one is a bare
  \<^verbatim>\<open>except\<close> and catches whatever the keypoint read raises.
\<close>

definition pose_detection ::
  "detectors \<Rightarrow> image \<Rightarrow> py_exception + annotated \<times> person option" where
  "pose_detection env frame_small =
     (case pose_model env frame_small of
        PoseRaises e \<Rightarrow>
          (if is_Exception e then Inr (\<lparr> canvas = frame_small, overlays = [] \<rparr>, None) else Inl e)
      | PoseReturns plotted kp \<Rightarrow>
          Inr (\<lparr> canvas = plotted, overlays = [] \<rparr>,
               (case kp of
                  KeypointsRaise \<Rightarrow> None
                | KeypointsArray arr \<Rightarrow> (if length arr \<noteq> 0 then Some (arr ! 0) else None))))"

text \<open>Lines 1546 to 1555: the hand landmarks drawn on the annotated frame.\<close>

definition draw_hands :: "annotated \<Rightarrow> hand_res \<Rightarrow> annotated" where
  "draw_hands ann hr =
     (case multi_hand_landmarks hr of
        None \<Rightarrow> ann
      | Some hs \<Rightarrow> (if hs \<noteq> [] then ann\<lparr>overlays := overlays ann @ map HandLandmarks hs\<rparr> else ann))"

text \<open>
  Lines 1520 to 1586 up to the stores, for the frame the camera gave and the counter
  already incremented. The hand detector and \<^verbatim>\<open>run_plugins\<close> are called outside
  any \<^verbatim>\<open>try\<close>, so an exception of the one, or one that leaves the other, leaves
  the iteration (\<open>Inl\<close>).
\<close>

definition run_cycle ::
  "detectors \<Rightarrow> plugin_manager \<Rightarrow> int \<Rightarrow> image \<Rightarrow> py_exception + cycle_output" where
  "run_cycle env pm count frame =
     (let frame_small = Resized frame
      in case pose_detection env frame_small of
           Inl e \<Rightarrow> Inl e
         | Inr (ann0, kpts) \<Rightarrow>
             (case hands_process env frame_small of
                Inl e \<Rightarrow> Inl e
              | Inr hr \<Rightarrow>
                  (case run_plugins pm frame_small (draw_hands ann0 hr) kpts hr of
                     Inl e \<Rightarrow> Inl e
                   | Inr (plugin_msgs, plugin_colors, ann2) \<Rightarrow>
                       Inr \<lparr> out_annotated =
                               ann2\<lparr>overlays := overlays ann2 @
                                 [LiveDetectionText, FrameText count,
                                  PluginsActiveText (length (get_enabled_plugins pm))]\<rparr>,
                             out_msgs = plugin_msgs,
                             out_colors = plugin_colors,
                             out_status =
                               \<lparr> frame_count = count,
                                 person_detected = (kpts \<noteq> None),
                                 hands_detected = (multi_hand_landmarks hr \<noteq> None),
                                 plugin_count = length plugin_msgs,
                                 plugins = get_enabled_plugins pm,
                                 plugins_loaded = length (get_enabled_plugins pm),
                                 total_plugins = length (available_plugins pm) \<rparr> \<rparr>)))"

subsection \<open>The module globals and their three stores\<close>

text \<open>
  \<^verbatim>\<open>current_frame\<close>, \<^verbatim>\<open>current_messages\<close> and \<^verbatim>\<open>current_status\<close>
  are module globals, initially \<^verbatim>\<open>None\<close>, \<^verbatim>\<open>[]\<close> and \<^verbatim>\<open>{}\<close>
  (here \<open>None\<close>). The loop assigns them in three statements (lines 1570, 1571 and 1574),
  with no lock anywhere in the file; the request handlers run in other threads and read
  the globals at any moment. The plugin colors are not stored.
\<close>

record globals =
  current_frame :: "annotated option"
  current_messages :: "string list"
  current_status :: "status option"

definition initial_globals :: globals where
  "initial_globals = \<lparr> current_frame = None, current_messages = [], current_status = None \<rparr>"

datatype store = StoreFrame annotated | StoreMessages "string list" | StoreStatus status

fun do_store :: "globals \<Rightarrow> store \<Rightarrow> globals" where
  "do_store g (StoreFrame a) = g\<lparr>current_frame := Some a\<rparr>"
| "do_store g (StoreMessages ms) = g\<lparr>current_messages := ms\<rparr>"
| "do_store g (StoreStatus s) = g\<lparr>current_status := Some s\<rparr>"

definition publish_stores :: "cycle_output \<Rightarrow> store list" where
  "publish_stores out =
     [StoreFrame (out_annotated out), StoreMessages (out_msgs out), StoreStatus (out_status out)]"

definition publish :: "globals \<Rightarrow> cycle_output \<Rightarrow> globals" where
  "publish g out = foldl do_store g (publish_stores out)"

text \<open>
  The values of the globals another thread can find while the loop publishes: before
  the first store and after each of the three.
\<close>

definition visible_states :: "globals \<Rightarrow> cycle_output \<Rightarrow> globals list" where
  "visible_states g out =
     map (\<lambda>n. foldl do_store g (take n (publish_stores out))) [0, 1, 2, 3]"

datatype camera_read = NoFrame | Frame image

text \<open>
  One iteration of the \<^verbatim>\<open>while\<close> loop on the local \<^verbatim>\<open>frame_count\<close> and
  the globals. Without a frame the loop sleeps and goes on.
\<close>

definition loop_iteration ::
  "detectors \<Rightarrow> plugin_manager \<Rightarrow> int \<times> globals \<Rightarrow> camera_read \<Rightarrow> py_exception + (int \<times> globals)" where
  "loop_iteration env pm s r =
     (case s of (count, g) \<Rightarrow>
        (case r of
           NoFrame \<Rightarrow> Inr (count, g)
         | Frame frame \<Rightarrow>
             (case run_cycle env pm (count + 1) frame of
                Inl e \<Rightarrow> Inl e
              | Inr out \<Rightarrow> Inr (count + 1, publish g out))))"

text \<open>
  The loop over the reads the camera answers while the running flag is set. An
  exception that leaves an iteration ends the loop (and its thread).
\<close>

fun detection_loop ::
  "detectors \<Rightarrow> plugin_manager \<Rightarrow> camera_read list \<Rightarrow> int \<times> globals \<Rightarrow> py_exception + (int \<times> globals)" where
  "detection_loop env pm [] s = Inr s"
| "detection_loop env pm (r # rs) s =
     (case loop_iteration env pm s r of
        Inl e \<Rightarrow> Inl e
      | Inr s' \<Rightarrow> detection_loop env pm rs s')"

section \<open>The readers\<close>

text \<open>The document of \<^verbatim>\<open>GET /api/status\<close>, built from the globals as they are.\<close>

record status_document =
  json_messages :: "string list"
  json_status :: "status option"
  json_colors :: "int list list"

definition get_status :: "globals \<Rightarrow> status_document" where
  "get_status g =
     \<lparr> json_messages = current_messages g,
       json_status = current_status g,
       json_colors = (if current_messages g \<noteq> [] then [[255, 75, 43]] else []) \<rparr>"

text \<open>
  One turn of \<^verbatim>\<open>generate_frames\<close>: the frame it encodes and sends, if there is
  one.
\<close>

definition generate_frame :: "globals \<Rightarrow> annotated option" where
  "generate_frame g = current_frame g"


section \<open>Predicates the properties are stated with\<close>




text \<open>
  A run call raises outside \<^verbatim>\<open>Exception\<close>; a returned color has a component
  on which \<^verbatim>\<open>int()\<close> raises.
\<close>

fun escapes :: "run_result \<Rightarrow> bool" where
  "escapes (Raises e) = (\<not> is_Exception e)"
| "escapes NotAPair = False"
| "escapes (Returns msg color) = False"

fun int_raises_in :: "run_result \<Rightarrow> bool" where
  "int_raises_in (Returns msg color) =
     (case components color of None \<Rightarrow> False | Some cs \<Rightarrow> (\<exists>c \<in> set cs. py_int c = None))"
| "int_raises_in (Raises e) = False"
| "int_raises_in NotAPair = False"

section \<open>Example plugins, detectors and registries\<close>

text \<open>
  Concrete plugins for the instances below. \<open>saying s\<close> returns the message \<open>s\<close> with
  a red color on every call. \<open>posture\<close> declares \<^verbatim>\<open>requires_keypoints = True\<close>,
  draws on the frame and returns a message without looking at the keypoints.
  \<open>hand_alert\<close> returns a message when a hand was detected and
  \<^verbatim>\<open>(None, None)\<close> otherwise. \<open>bad_color\<close> returns a message with the color
  \<^verbatim>\<open>(255, None, 0)\<close>. \<open>faulty\<close> raises an instance of
  \<^verbatim>\<open>Exception\<close> on every call, \<open>quitter\<close> raises \<^verbatim>\<open>SystemExit\<close>.
\<close>

definition saying :: "string \<Rightarrow> plugin_instance" where
  "saying s =
     \<lparr> attr_requires_keypoints = None,
       attr_requires_hands = None,
       run = (\<lambda>frame ann kpts hr. (Returns (MStr s) (ColTuple [CInt 255, CInt 0, CInt 0]), ann)) \<rparr>"

definition posture :: plugin_instance where
  "posture =
     \<lparr> attr_requires_keypoints = Some True,
       attr_requires_hands = None,
       run = (\<lambda>frame ann kpts hr.
                (Returns (MStr ''posture checked'') (ColTuple [CInt 0, CInt 255, CInt 0]),
                 ann\<lparr>overlays := overlays ann @ [PluginDrawing ''posture'']\<rparr>)) \<rparr>"

definition hand_alert :: plugin_instance where
  "hand_alert =
     \<lparr> attr_requires_keypoints = None,
       attr_requires_hands = Some True,
       run = (\<lambda>frame ann kpts hr.
                (if multi_hand_landmarks hr = None then Returns MNone ColNone
                 else Returns (MStr ''hand seen'') (ColTuple [CInt 0, CInt 0, CInt 255]), ann)) \<rparr>"

definition bad_color :: plugin_instance where
  "bad_color =
     \<lparr> attr_requires_keypoints = None,
       attr_requires_hands = None,
       run = (\<lambda>frame ann kpts hr.
                (Returns (MStr ''look'') (ColTuple [CInt 255, CObj None, CInt 0]), ann)) \<rparr>"

definition faulty :: plugin_instance where
  "faulty =
     \<lparr> attr_requires_keypoints = None,
       attr_requires_hands = None,
       run = (\<lambda>frame ann kpts hr. (Raises (PyException ''boom''), ann)) \<rparr>"


text \<open>
  A plugin folder in the order \<^verbatim>\<open>glob\<close> lists it: the package file, a module that
  fails to import, a helper module without a \<^verbatim>\<open>Plugin\<close> class, and five plugins.
\<close>

definition ex_folder :: "(string \<times> load_outcome) list" where
  "ex_folder =
     [(''__init__'', NoPluginClass),
      (''alpha'', Loaded (saying ''alpha here'')),
      (''broken'', LoadRaises (PyException ''invalid syntax'')),
      (''helpers'', NoPluginClass),
      (''beta'', Loaded (saying ''beta here'')),
      (''posture'', Loaded posture),
      (''hands'', Loaded hand_alert),
      (''faulty'', Loaded faulty)]"

text \<open>The registry after \<^verbatim>\<open>enable_plugin\<close> for each name of the list, in turn.\<close>

fun enable_all :: "plugin_manager \<Rightarrow> string list \<Rightarrow> plugin_manager" where
  "enable_all pm [] = pm"
| "enable_all pm (n # ns) = enable_all (snd (enable_plugin pm n)) ns"

definition ex_registry :: plugin_manager where
  "ex_registry = projr (new_plugin_manager (PackageFiles ex_folder))"



text \<open>
  Detectors for five camera images. Image 0 shows nobody; on image 1 the pose model
  raises; image 2 shows two people and a hand; on image 3 the hand detector raises;
  every other image shows two people and no hand.
\<close>

definition two_people :: "person list" where
  "two_people = [[(100, 200, 9 / 10)], [(300, 400, 8 / 10)]]"

definition ex_detectors :: detectors where
  "ex_detectors =
     \<lparr> pose_model = (\<lambda>img.
         if img = Resized (Camera 0) then PoseReturns (PosePlot img) (KeypointsArray [])
         else if img = Resized (Camera 1) then PoseRaises (PyException ''CUDA out of memory'')
         else PoseReturns (PosePlot img) (KeypointsArray two_people)),
       hands_process = (\<lambda>img.
         if img = Resized (Camera 3) then Inl (PyException ''graph error'')
         else if img = Resized (Camera 2) then Inr \<lparr> multi_hand_landmarks = Some [[(10, 20, 0)]] \<rparr>
         else Inr \<lparr> multi_hand_landmarks = None \<rparr>) \<rparr>"

definition no_hands :: hand_res where
  "no_hands = \<lparr> multi_hand_landmarks = None \<rparr>"

definition blank :: annotated where
  "blank = \<lparr> canvas = Resized (Camera 0), overlays = [] \<rparr>"


text \<open>
  Two cycles of the loop with \<open>hand_alert\<close> enabled: the globals after the cycle on
  image 0 and what the cycle on image 2 computes.
\<close>

definition hands_registry :: plugin_manager where
  "hands_registry = enable_all ex_registry [''hands'']"

definition cycle1_globals :: globals where
  "cycle1_globals =
     snd (projr (detection_loop ex_detectors hands_registry [Frame (Camera 0)] (0, initial_globals)))"

definition cycle2_output :: cycle_output where
  "cycle2_output = projr (run_cycle ex_detectors hands_registry 2 (Camera 2))"


text \<open>
  Registries with plugins enabled: \<open>beta\<close> alone; \<open>beta\<close> and then \<open>alpha\<close>,
  which was registered first; \<open>posture\<close> alone; \<open>posture\<close>, \<open>faulty\<close> and
  \<open>hands\<close>.
\<close>

definition beta_registry :: plugin_manager where
  "beta_registry = enable_all ex_registry [''beta'']"

definition both_registry :: plugin_manager where
  "both_registry = enable_all ex_registry [''beta'', ''alpha'']"




section \<open>Dictionaries and the registry\<close>

lemmas ex_defs = ex_registry_def new_plugin_manager_def discover_plugins_def ex_folder_def
  startswith_dunder_def dict_keys_def make_plugin_info_def

lemma dict_get_None_iff: "dict_get d k = None \<longleftrightarrow> k \<notin> set (dict_keys d)"
proof (induction d)
  case Nil
  show ?case by (simp add: dict_keys_def)
next
  case (Cons p d)
  obtain k' v' where p: "p = (k', v')" by (cases p)
  from Cons show ?case by (auto simp: p dict_keys_def)
qed






lemma dict_set_fresh: "k \<notin> set (dict_keys d) \<Longrightarrow> dict_set d k v = d @ [(k, v)]"
proof (induction d)
  case Nil
  show ?case by simp
next
  case (Cons p d)
  obtain a b where p: "p = (a, b)" by (cases p)
  from Cons show ?case by (auto simp: p dict_keys_def)
qed













section \<open>Properties of the registry\<close>

text \<open>
  C6. For a name that is not a key of \<^verbatim>\<open>available_plugins\<close>,
  \<^verbatim>\<open>enable_plugin\<close> returns \<^verbatim>\<open>False\<close> and \<^verbatim>\<open>toggle_plugin\<close>
  returns \<^verbatim>\<open>(False, False)\<close>; the manager after either call is the manager
  before it, and so is the list of enabled plugins.
\<close>

theorem unknown_plugin_rejected:
  assumes "n \<notin> set (dict_keys (available_plugins pm))"
  shows "enable_plugin pm n = (False, pm) \<and> toggle_plugin pm n = ((False, False), pm) \<and>
         get_enabled_plugins (snd (enable_plugin pm n)) = get_enabled_plugins pm \<and>
         get_enabled_plugins (snd (toggle_plugin pm n)) = get_enabled_plugins pm"
proof -
  from assms have "dict_get (available_plugins pm) n = None"
    by (simp add: dict_get_None_iff)
  then show ?thesis
    by (simp add: enable_plugin_def toggle_plugin_def)
qed

theorem unknown_plugin_rejected_witness:
  "''zoom'' \<notin> set (dict_keys (available_plugins ex_registry)) \<and>
   enable_plugin ex_registry ''zoom'' = (False, ex_registry) \<and>
   toggle_plugin ex_registry ''zoom'' = ((False, False), ex_registry)"
proof -
  have h: "''zoom'' \<notin> set (dict_keys (available_plugins ex_registry))"
    by (simp add: ex_defs)
  from unknown_plugin_rejected [OF h] h show ?thesis by simp
qed






section \<open>Properties of the inference step\<close>

text \<open>
  C8. The inference step yields at most one keypoint set. When the pose model raises an
  instance of \<^verbatim>\<open>Exception\<close>, when the reading of its keypoints raises, or when
  the array of persons is empty, there is none; otherwise it is the first person of the
  array, however many persons the model reports. (An exception of the pose model outside
  \<^verbatim>\<open>Exception\<close> leaves the step.)
\<close>

theorem at_most_first_person:
  "map_sum id snd (pose_detection env frame_small) =
     (case pose_model env frame_small of
        PoseRaises e \<Rightarrow> (if is_Exception e then Inr None else Inl e)
      | PoseReturns plotted KeypointsRaise \<Rightarrow> Inr None
      | PoseReturns plotted (KeypointsArray arr) \<Rightarrow>
          Inr (case arr of [] \<Rightarrow> None | p # ps \<Rightarrow> Some p))"
  by (simp add: pose_detection_def split: pose_outcome.splits keypoints_outcome.splits list.splits)

lemma first_of_two_people:
  "map_sum id snd (pose_detection ex_detectors (Resized (Camera 2))) = Inr (Some [(100, 200, 9 / 10)])"
  by (simp add: pose_detection_def ex_detectors_def two_people_def)

text \<open>
  C7, at a frame on which the hand detector raises. \<^verbatim>\<open>hands.process\<close> is called
  outside any \<^verbatim>\<open>try\<close>: on image 3 its exception leaves the loop, which ends
  without publishing anything and never reads image 4. The pose model is called inside
  one: on image 1, where it raises, the step goes on with a copy of the frame and no
  keypoints.
\<close>

theorem hand_detector_exception_ends_loop:
  "detection_loop ex_detectors ex_registry [Frame (Camera 3), Frame (Camera 4)] (0, initial_globals)
     = Inl (PyException ''graph error'') \<and>
   pose_detection ex_detectors (Resized (Camera 1)) =
     Inr (\<lparr> canvas = Resized (Camera 1), overlays = [] \<rparr>, None)"
  by (simp add: loop_iteration_def run_cycle_def pose_detection_def ex_detectors_def)

section \<open>Properties of running the plugins\<close>

lemmas run_defs = enable_plugin_def get_enabled_plugins_def run_plugins_def run_one_plugin_def
  loop_iteration_def run_cycle_def pose_detection_def draw_hands_def publish_def publish_stores_def
  get_status_def generate_frame_def visible_states_def initial_globals_def
  saying_def posture_def hand_alert_def faulty_def ex_detectors_def no_hands_def blank_def two_people_def

lemma int_tuple_None_iff: "int_tuple cs = None \<longleftrightarrow> (\<exists>c \<in> set cs. py_int c = None)"
  by (induction cs) (auto split: option.splits)

lemma int_tuple_length: "int_tuple cs = Some t \<Longrightarrow> length t = length cs"
  by (induction cs arbitrary: t) (auto split: option.splits)

lemma run_plugins_loop_append:
  "run_plugins_loop (xs @ ys) f k h acc =
     (case run_plugins_loop xs f k h acc of
        Inl e \<Rightarrow> Inl e
      | Inr acc' \<Rightarrow> run_plugins_loop ys f k h acc')"
proof (induction xs arbitrary: acc)
  case Nil
  show ?case by simp
next
  case (Cons x xs)
  obtain n p where x: "x = (n, p)" by (cases x)
  from Cons show ?case by (simp add: x split: sum.splits)
qed

text \<open>What one turn adds to the two lists, when it returns.\<close>

lemma run_one_plugin_adds:
  assumes "run_one_plugin f k h p (msgs, cols, ann) = Inr r"
  shows "\<exists>ms cs. r = (msgs @ ms, cols @ cs, snd (run p f ann k h)) \<and>
                length cs \<le> length ms \<and> (\<forall>c \<in> set cs. length c = 3) \<and>
                (\<not> int_raises_in (fst (run p f ann k h)) \<longrightarrow> length ms = length cs)"
proof (cases "run p f ann k h")
  case (Pair res a)
  show ?thesis
  proof (cases res)
    case (Raises e)
    with Pair assms show ?thesis by (auto simp: run_one_plugin_def split: if_splits)
  next
    case NotAPair
    with Pair assms show ?thesis by (auto simp: run_one_plugin_def)
  next
    case (Returns msg color)
    show ?thesis
    proof (cases "components color")
      case None
      with Pair Returns assms show ?thesis by (auto simp: run_one_plugin_def split: if_splits)
    next
      case (Some comps)
      show ?thesis
      proof (cases "int_tuple comps")
        case None
        then have "\<exists>c \<in> set comps. py_int c = None"
          by (simp add: int_tuple_None_iff)
        with Pair Returns Some have "int_raises_in (fst (run p f ann k h))"
          by simp
        with Pair Returns Some None assms show ?thesis
          by (auto simp: run_one_plugin_def split: if_splits)
      next
        case (Some t)
        with Pair Returns \<open>components color = Some comps\<close> int_tuple_length [OF Some] assms
        show ?thesis
          by (auto simp: run_one_plugin_def split: if_splits)
      qed
    qed
  qed
qed

lemma run_one_plugin_returns:
  assumes "\<not> escapes (fst (run p f ann k h))"
  shows "\<exists>r. run_one_plugin f k h p (msgs, cols, ann) = Inr r"
proof (cases "run p f ann k h")
  case (Pair res a)
  with assms show ?thesis
    by (cases res) (auto simp: run_one_plugin_def split: option.splits)
qed




lemma run_plugins_loop_returns:
  "\<forall>(n, p) \<in> set ps. \<forall>a. \<not> escapes (fst (run p f a k h)) \<Longrightarrow>
   \<exists>r. run_plugins_loop ps f k h acc = Inr r"
proof (induction ps arbitrary: acc)
  case Nil
  show ?case by (cases acc) auto
next
  case (Cons x ps)
  obtain n p where x: "x = (n, p)" by (cases x)
  obtain msgs cols ann where acc: "acc = (msgs, cols, ann)" by (cases acc) auto
  from Cons.prems have "\<not> escapes (fst (run p f ann k h))"
    and rest: "\<forall>(n, p) \<in> set ps. \<forall>a. \<not> escapes (fst (run p f a k h))"
    by (auto simp: x)
  from run_one_plugin_returns [OF this(1)]
  obtain r where "run_one_plugin f k h p (msgs, cols, ann) = Inr r"
    by blast
  with Cons.IH [OF rest, of r] show ?case by (simp add: x acc)
qed


text \<open>
  The message is appended before the color is converted: a color component on which
  \<^verbatim>\<open>int()\<close> raises leaves a message without a color.
\<close>

lemma message_without_color:
  "run_one_plugin (Resized (Camera 0)) None no_hands bad_color ([], [], blank) = Inr ([''look''], [], blank)"
  by (simp add: run_one_plugin_def bad_color_def)







text \<open>
  Against C4 as stated: \<open>alpha\<close> is registered before \<open>beta\<close> and both are enabled,
  \<open>beta\<close> first; the message of \<open>beta\<close> comes first.
\<close>

theorem enable_order_counterexample:
  "get_enabled_plugins both_registry = [''alpha'', ''beta''] \<and>
   dict_keys (loaded_plugins both_registry) = [''beta'', ''alpha''] \<and>
   map_sum id fst (run_plugins both_registry (Resized (Camera 0)) blank None no_hands) =
     Inr [''beta here'', ''alpha here'']"
  by (simp add: both_registry_def run_defs ex_defs)

text \<open>
  C4, amended. The plugins are invoked in the order of \<^verbatim>\<open>loaded_plugins\<close>, which
  is the order in which they were enabled, not registration order: enabling a plugin
  that is not loaded puts it after all the loaded ones, its turn comes after theirs, and
  what it contributes comes after their messages. Both runs return when no run call
  raises outside \<^verbatim>\<open>Exception\<close>.
\<close>

theorem enable_order_is_run_order:
  assumes known: "dict_get (available_plugins pm) n = Some info"
      and off: "\<not> enabled info"
      and fresh: "n \<notin> set (dict_keys (loaded_plugins pm))"
  shows "loaded_plugins (snd (enable_plugin pm n)) = loaded_plugins pm @ [(n, instance_of info)] \<and>
         run_plugins (snd (enable_plugin pm n)) f ann k h =
           (case run_plugins pm f ann k h of
              Inl e \<Rightarrow> Inl e
            | Inr acc \<Rightarrow> run_one_plugin f k h (instance_of info) acc) \<and>
         (\<forall>msgs cols a res. run_plugins pm f ann k h = Inr (msgs, cols, a) \<longrightarrow>
            run_plugins (snd (enable_plugin pm n)) f ann k h = Inr res \<longrightarrow>
            (\<exists>own. fst res = msgs @ own)) \<and>
         ((\<forall>(m, q) \<in> set (loaded_plugins (snd (enable_plugin pm n))).
              \<forall>a. \<not> escapes (fst (run q f a k h))) \<longrightarrow>
            (\<exists>msgs cols a own cols' a'.
               run_plugins pm f ann k h = Inr (msgs, cols, a) \<and>
               run_plugins (snd (enable_plugin pm n)) f ann k h = Inr (msgs @ own, cols', a')))"
proof -
  let ?pm' = "snd (enable_plugin pm n)"
  have loaded: "loaded_plugins ?pm' = loaded_plugins pm @ [(n, instance_of info)]"
    using known off fresh by (simp add: enable_plugin_def dict_set_fresh)
  have run: "run_plugins ?pm' f ann k h =
             (case run_plugins pm f ann k h of
                Inl e \<Rightarrow> Inl e
              | Inr acc \<Rightarrow> run_one_plugin f k h (instance_of info) acc)"
    by (simp add: run_plugins_def loaded run_plugins_loop_append split: sum.splits)
  have prefix: "\<exists>own. fst res = msgs @ own"
    if before: "run_plugins pm f ann k h = Inr (msgs, cols, a)"
      and after: "run_plugins ?pm' f ann k h = Inr res" for msgs cols a res
  proof -
    from run before after have "run_one_plugin f k h (instance_of info) (msgs, cols, a) = Inr res"
      by simp
    from run_one_plugin_adds [OF this] show ?thesis by auto
  qed
  have both: "\<exists>msgs cols a own cols' a'.
               run_plugins pm f ann k h = Inr (msgs, cols, a) \<and>
               run_plugins ?pm' f ann k h = Inr (msgs @ own, cols', a')"
    if quiet: "\<forall>(m, q) \<in> set (loaded_plugins ?pm'). \<forall>a. \<not> escapes (fst (run q f a k h))"
  proof -
    from run_plugins_loop_returns [OF quiet, of "([], [], ann)"]
    obtain res where after: "run_plugins ?pm' f ann k h = Inr res"
      by (auto simp: run_plugins_def)
    with run obtain acc where before: "run_plugins pm f ann k h = Inr acc"
      by (cases "run_plugins pm f ann k h") auto
    obtain msgs cols a where acc: "acc = (msgs, cols, a)" by (cases acc) auto
    from prefix [OF before [unfolded acc] after] obtain own where "fst res = msgs @ own"
      by blast
    then obtain cols' a' where "res = (msgs @ own, cols', a')"
      by (cases res) auto
    with before after acc show ?thesis by blast
  qed
  from loaded run prefix both show ?thesis by blast
qed

theorem enable_order_is_run_order_witness:
  "loaded_plugins (snd (enable_plugin beta_registry ''alpha'')) =
     [(''beta'', saying ''beta here''), (''alpha'', saying ''alpha here'')] \<and>
   run_plugins beta_registry (Resized (Camera 0)) blank None no_hands =
     Inr ([''beta here''], [[255, 0, 0]], blank) \<and>
   run_plugins (snd (enable_plugin beta_registry ''alpha'')) (Resized (Camera 0)) blank None no_hands =
     Inr ([''beta here'', ''alpha here''], [[255, 0, 0], [255, 0, 0]], blank)"
proof -
  have known: "dict_get (available_plugins beta_registry) ''alpha'' =
                 Some (make_plugin_info ''alpha'' (saying ''alpha here''))"
    by (simp add: beta_registry_def enable_plugin_def ex_defs)
  have off: "\<not> enabled (make_plugin_info ''alpha'' (saying ''alpha here''))"
    by (simp add: make_plugin_info_def)
  have fresh: "''alpha'' \<notin> set (dict_keys (loaded_plugins beta_registry))"
    by (simp add: beta_registry_def enable_plugin_def ex_defs)
  have before: "loaded_plugins beta_registry = [(''beta'', saying ''beta here'')]"
    by (simp add: beta_registry_def enable_plugin_def ex_defs)
  have inst: "instance_of (make_plugin_info ''alpha'' (saying ''alpha here'')) = saying ''alpha here''"
    by (simp add: make_plugin_info_def)
  have run_before: "run_plugins beta_registry (Resized (Camera 0)) blank None no_hands =
                      Inr ([''beta here''], [[255, 0, 0]], blank)"
    by (simp add: run_plugins_def before run_one_plugin_def saying_def)
  have turn: "run_one_plugin (Resized (Camera 0)) None no_hands (saying ''alpha here'')
                ([''beta here''], [[255, 0, 0]], blank) =
              Inr ([''beta here'', ''alpha here''], [[255, 0, 0], [255, 0, 0]], blank)"
    by (simp add: run_one_plugin_def saying_def)
  from enable_order_is_run_order [OF known off fresh, of "Resized (Camera 0)" blank None no_hands]
  have "loaded_plugins (snd (enable_plugin beta_registry ''alpha'')) =
          loaded_plugins beta_registry @ [(''alpha'', saying ''alpha here'')]"
    and "run_plugins (snd (enable_plugin beta_registry ''alpha'')) (Resized (Camera 0)) blank None no_hands =
          (case run_plugins beta_registry (Resized (Camera 0)) blank None no_hands of
             Inl e \<Rightarrow> Inl e
           | Inr acc \<Rightarrow> run_one_plugin (Resized (Camera 0)) None no_hands (saying ''alpha here'') acc)"
    by (simp_all only: inst)
  then show ?thesis by (simp add: before run_before turn)
qed




section \<open>Properties of the publication\<close>

text \<open>
  Against C2 as stated: the loop runs two cycles; a reader between the first and the
  second store of the second cycle gets the frame of cycle 2 from the video stream, and
  from the status endpoint the messages and the frame counter of cycle 1.
\<close>

theorem torn_snapshot_counterexample:
  "detection_loop ex_detectors hands_registry [Frame (Camera 0), Frame (Camera 2)] (0, initial_globals)
     = Inr (2, publish cycle1_globals cycle2_output) \<and>
   generate_frame (visible_states cycle1_globals cycle2_output ! 1) = Some (out_annotated cycle2_output) \<and>
   FrameText 2 \<in> set (overlays (out_annotated cycle2_output)) \<and>
   out_msgs cycle2_output = [''hand seen''] \<and>
   json_messages (get_status (visible_states cycle1_globals cycle2_output ! 1)) = [] \<and>
   map_option frame_count (json_status (get_status (visible_states cycle1_globals cycle2_output ! 1))) = Some 1"
  by (simp add: cycle1_globals_def cycle2_output_def hands_registry_def run_defs ex_defs)

text \<open>
  C2, amended. Once the three stores of an iteration are done, the globals hold the
  frame, the messages and the status of that iteration, and a reader finds them until
  the next iteration stores. Between the first and the second store a reader finds the
  new frame with the messages and the status that were there before.
\<close>

theorem publish_completes_snapshot:
  "current_frame (publish g out) = Some (out_annotated out) \<and>
   current_messages (publish g out) = out_msgs out \<and>
   current_status (publish g out) = Some (out_status out) \<and>
   visible_states g out ! 0 = g \<and>
   visible_states g out ! 3 = publish g out \<and>
   generate_frame (visible_states g out ! 1) = Some (out_annotated out) \<and>
   json_messages (get_status (visible_states g out ! 1)) = current_messages g \<and>
   json_status (get_status (visible_states g out ! 1)) = current_status g"
  by (simp add: publish_def publish_stores_def visible_states_def generate_frame_def get_status_def)

end
